theory Spec2Isabelle
  imports Main "HOL-Library.Word"
begin

unbundle bit_operations_syntax

section \<open>Machine types of the header\<close>

text \<open>
  \<^verbatim>\<open>IAudioRenderer.h\<close> declares two plain structs made of \<^verbatim>\<open>u32\<close> members, and the
  service class \<^verbatim>\<open>IAudioRenderer\<close>. The integer types are fixed-width words.
\<close>

type_synonym u8 = "8 word"
type_synonym u32 = "32 word"
type_synonym i16 = "16 word"

text \<open>\<^verbatim>\<open>constexpr auto BufferAlignment = 0x40\<close> (namespace \<^verbatim>\<open>constant\<close>).\<close>

definition BufferAlignment :: nat where
  "BufferAlignment = 0x40"

section \<open>Struct layout\<close>

text \<open>
  The member types that occur in the two structs: \<^verbatim>\<open>u32\<close> and arrays of it
  (\<^verbatim>\<open>u32 _unk1_[4]\<close>). Size and alignment follow the usual data model: a \<^verbatim>\<open>u32\<close> is
  four bytes, aligned to four; an array has its element's alignment.
\<close>

datatype ctype = U32 | Array ctype nat

fun sizeof_ctype :: "ctype \<Rightarrow> nat" where
  "sizeof_ctype U32 = 4"
| "sizeof_ctype (Array t n) = n * sizeof_ctype t"

fun alignof_ctype :: "ctype \<Rightarrow> nat" where
  "alignof_ctype U32 = 4"
| "alignof_ctype (Array t n) = alignof_ctype t"

type_synonym member = "string \<times> ctype"

definition align_up :: "nat \<Rightarrow> nat \<Rightarrow> nat" where
  "align_up a off = ((off + a - 1) div a) * a"

text \<open>
  Members are laid out in declaration order, each at the next offset that its alignment
  allows. \<open>struct_layout off ms\<close> gives every member's name and offset, \<open>struct_end\<close>
  the offset after the last member.
\<close>

fun struct_layout :: "nat \<Rightarrow> member list \<Rightarrow> (string \<times> nat) list" where
  "struct_layout off [] = []"
| "struct_layout off ((n, t) # ms) =
     (let at = align_up (alignof_ctype t) off
      in (n, at) # struct_layout (at + sizeof_ctype t) ms)"

fun struct_end :: "nat \<Rightarrow> member list \<Rightarrow> nat" where
  "struct_end off [] = off"
| "struct_end off ((n, t) # ms) =
     struct_end (align_up (alignof_ctype t) off + sizeof_ctype t) ms"

text \<open>The offsets of the \<^verbatim>\<open>u32\<close> cells of a member placed at \<open>at\<close>: an array has one per element.\<close>

fun cell_offsets :: "nat \<Rightarrow> ctype \<Rightarrow> nat list" where
  "cell_offsets at U32 = [at]"
| "cell_offsets at (Array t n) =
     concat (map (\<lambda>k. cell_offsets (at + k * sizeof_ctype t) t) [0..<n])"

fun struct_cells :: "nat \<Rightarrow> member list \<Rightarrow> nat list" where
  "struct_cells off [] = []"
| "struct_cells off ((n, t) # ms) =
     (let at = align_up (alignof_ctype t) off
      in cell_offsets at t @ struct_cells (at + sizeof_ctype t) ms)"

definition struct_align :: "member list \<Rightarrow> nat" where
  "struct_align ms = fold max (map (alignof_ctype \<circ> snd) ms) 1"

text \<open>\<^verbatim>\<open>sizeof\<close>: the end offset, rounded up to the struct's alignment.\<close>

definition struct_sizeof :: "member list \<Rightarrow> nat" where
  "struct_sizeof ms = align_up (struct_align ms) (struct_end 0 ms)"

text \<open>The bytes the members themselves take, without any padding.\<close>

definition members_size :: "member list \<Rightarrow> nat" where
  "members_size ms = sum_list (map (sizeof_ctype \<circ> snd) ms)"

subsection \<open>Object representation of a \<^verbatim>\<open>u32\<close>\<close>

text \<open>
  The emulator's targets store a \<^verbatim>\<open>u32\<close> least significant byte first, as the guest
  does, so a struct received from the guest is used as it lies in memory.
\<close>

definition le32 :: "u32 \<Rightarrow> u8 list" where
  "le32 w = [ucast w, ucast (drop_bit 8 w), ucast (drop_bit 16 w), ucast (drop_bit 24 w)]"

text \<open>Reading a \<^verbatim>\<open>u32\<close> at a byte offset; \<open>None\<close> when the four bytes are not all there.\<close>

definition rd32 :: "u8 list \<Rightarrow> nat \<Rightarrow> u32 option" where
  "rd32 bs off =
     (if off + 4 \<le> length bs
      then Some (ucast (bs ! off)
                 OR push_bit 8 (ucast (bs ! (off + 1)))
                 OR push_bit 16 (ucast (bs ! (off + 2)))
                 OR push_bit 24 (ucast (bs ! (off + 3))))
      else None)"

section \<open>AudioRendererParameters\<close>

text \<open>
  \<^verbatim>\<open>struct AudioRendererParameters\<close>, thirteen \<^verbatim>\<open>u32\<close> members, followed by
  \<^verbatim>\<open>static_assert(sizeof(AudioRendererParameters) == 0x34)\<close>. The member \<^verbatim>\<open>_unk0_\<close>
  is the record field \<open>unk0\<close>.
\<close>

record AudioRendererParameters =
  sampleRate :: u32
  sampleCount :: u32
  mixBufferCount :: u32
  subMixCount :: u32
  voiceCount :: u32
  sinkCount :: u32
  effectCount :: u32
  performanceManagerCount :: u32
  voiceDropEnable :: u32
  splitterCount :: u32
  splitterDestinationDataCount :: u32
  unk0 :: u32
  revision :: u32

definition AudioRendererParameters_members :: "member list" where
  "AudioRendererParameters_members =
     [(''sampleRate'', U32), (''sampleCount'', U32), (''mixBufferCount'', U32),
      (''subMixCount'', U32), (''voiceCount'', U32), (''sinkCount'', U32),
      (''effectCount'', U32), (''performanceManagerCount'', U32),
      (''voiceDropEnable'', U32), (''splitterCount'', U32),
      (''splitterDestinationDataCount'', U32), (''_unk0_'', U32), (''revision'', U32)]"

text \<open>The members' values in declaration order, and the struct as it lies in memory.\<close>

definition AudioRendererParameters_values :: "AudioRendererParameters \<Rightarrow> u32 list" where
  "AudioRendererParameters_values p =
     [sampleRate p, sampleCount p, mixBufferCount p, subMixCount p, voiceCount p,
      sinkCount p, effectCount p, performanceManagerCount p, voiceDropEnable p,
      splitterCount p, splitterDestinationDataCount p, unk0 p, revision p]"

definition AudioRendererParameters_bytes :: "AudioRendererParameters \<Rightarrow> u8 list" where
  "AudioRendererParameters_bytes p = concat (map le32 (AudioRendererParameters_values p))"

section \<open>UpdateDataHeader\<close>

text \<open>
  \<^verbatim>\<open>struct UpdateDataHeader\<close>, followed by
  \<^verbatim>\<open>static_assert(sizeof(UpdateDataHeader) == 0x40)\<close>. The member \<^verbatim>\<open>u32 _unk1_[4]\<close> is
  the field \<open>unk1\<close>, a tuple of its four elements.
\<close>

record UpdateDataHeader =
  hdr_revision :: u32
  behaviorSize :: u32
  memoryPoolSize :: u32
  voiceSize :: u32
  voiceResourceSize :: u32
  effectSize :: u32
  mixSize :: u32
  sinkSize :: u32
  performanceManagerSize :: u32
  hdr_unk0 :: u32
  elapsedFrameCountInfoSize :: u32
  unk1 :: "u32 \<times> u32 \<times> u32 \<times> u32"
  totalSize :: u32

definition UpdateDataHeader_members :: "member list" where
  "UpdateDataHeader_members =
     [(''revision'', U32), (''behaviorSize'', U32), (''memoryPoolSize'', U32),
      (''voiceSize'', U32), (''voiceResourceSize'', U32), (''effectSize'', U32),
      (''mixSize'', U32), (''sinkSize'', U32), (''performanceManagerSize'', U32),
      (''_unk0_'', U32), (''elapsedFrameCountInfoSize'', U32),
      (''_unk1_'', Array U32 4), (''totalSize'', U32)]"

definition UpdateDataHeader_values :: "UpdateDataHeader \<Rightarrow> u32 list" where
  "UpdateDataHeader_values h =
     (case unk1 h of (a, b, c, d) \<Rightarrow>
        [hdr_revision h, behaviorSize h, memoryPoolSize h, voiceSize h,
         voiceResourceSize h, effectSize h, mixSize h, sinkSize h,
         performanceManagerSize h, hdr_unk0 h, elapsedFrameCountInfoSize h,
         a, b, c, d, totalSize h])"

definition UpdateDataHeader_bytes :: "UpdateDataHeader \<Rightarrow> u8 list" where
  "UpdateDataHeader_bytes h = concat (map le32 (UpdateDataHeader_values h))"

section \<open>The IAudioRenderer class\<close>

text \<open>
  \<^verbatim>\<open>constant::MixBufferSize\<close> and \<^verbatim>\<open>constant::ChannelCount\<close> are used by the header and
  declared in \<^verbatim>\<open><audio.h>\<close>, which is not part of it. They are compile-time constants of
  the program, so every definition that needs them takes them as one parameter.
\<close>

record audio_constants =
  MixBufferSize :: nat
  ChannelCount :: nat

text \<open>
  Modelled from the spec: \<^verbatim>\<open>skyline::audio::AudioOutState\<close> is declared in \<^verbatim>\<open><audio.h>\<close>,
  which is missing. The spec's data model gives the playback state as
  \<^verbatim>\<open>{Stopped, Started}\<close>; the header uses the enumerator \<^verbatim>\<open>Stopped\<close>.
\<close>

datatype AudioOutState = Stopped | Started

text \<open>
  The data members of \<^verbatim>\<open>class IAudioRenderer\<close>, in declaration order. The classes
  \<^verbatim>\<open>RevisionInfo\<close>, \<^verbatim>\<open>AudioTrack\<close>, \<^verbatim>\<open>KEvent\<close>, \<^verbatim>\<open>MemoryPool\<close>, \<^verbatim>\<open>Effect\<close> and \<^verbatim>\<open>Voice\<close>
  come from other headers and stay type parameters. \<^verbatim>\<open>sampleBuffer\<close> is a
  \<^verbatim>\<open>std::array<i16, constant::MixBufferSize * constant::ChannelCount>\<close>: a list of
  \<^verbatim>\<open>i16\<close> whose length is the array's extent.
\<close>

record ('rev, 'track, 'event, 'pool, 'effect, 'voice) IAudioRenderer =
  parameters :: AudioRendererParameters
  revisionInfo :: 'rev
  track :: 'track
  releaseEvent :: 'event
  memoryPools :: "'pool list"
  effects :: "'effect list"
  voices :: "'voice list"
  sampleBuffer :: "i16 list"
  playbackState :: AudioOutState

text \<open>The extent in the type of \<^verbatim>\<open>sampleBuffer\<close>.\<close>

definition sampleBuffer_extent :: "audio_constants \<Rightarrow> nat" where
  "sampleBuffer_extent c = MixBufferSize c * ChannelCount c"

text \<open>
  An object of the class as it starts its life, given the values of the members that
  the constructor fills in: \<open>p\<close> is the value of \<^verbatim>\<open>parameters\<close>, and so on.
  \<^verbatim>\<open>sampleBuffer\<close> has no initialiser in the class, so its elements are whatever the
  storage held (\<open>mem\<close>), and there are as many as its type says; \<^verbatim>\<open>playbackState\<close> has
  the default member initialiser \<^verbatim>\<open>AudioOutState::Stopped\<close>.
\<close>

definition IAudioRenderer_object ::
  "audio_constants \<Rightarrow> AudioRendererParameters \<Rightarrow> 'rev \<Rightarrow> 'track \<Rightarrow> 'event \<Rightarrow>
   'pool list \<Rightarrow> 'effect list \<Rightarrow> 'voice list \<Rightarrow> (nat \<Rightarrow> i16) \<Rightarrow>
   ('rev, 'track, 'event, 'pool, 'effect, 'voice) IAudioRenderer" where
  "IAudioRenderer_object c p ri trk ev pools effs vcs mem =
     \<lparr>parameters = p, revisionInfo = ri, track = trk, releaseEvent = ev,
      memoryPools = pools, effects = effs, voices = vcs,
      sampleBuffer = map mem [0..<sampleBuffer_extent c],
      playbackState = Stopped\<rparr>"

text \<open>
  Modelled from the spec: the constructor \<^verbatim>\<open>IAudioRenderer(state, manager, parameters)\<close>
  is declared in the header and defined in a source file that is missing. The spec's
  data model has the parameters as the "immutable per-instance configuration fixed at
  construction": the constructor's argument becomes the member \<^verbatim>\<open>parameters\<close>. The
  track, the release event and the entity vectors it creates are given.
\<close>

definition IAudioRenderer_constructor ::
  "audio_constants \<Rightarrow> AudioRendererParameters \<Rightarrow> 'rev \<Rightarrow> 'track \<Rightarrow> 'event \<Rightarrow>
   'pool list \<Rightarrow> 'effect list \<Rightarrow> 'voice list \<Rightarrow> (nat \<Rightarrow> i16) \<Rightarrow>
   ('rev, 'track, 'event, 'pool, 'effect, 'voice) IAudioRenderer" where
  "IAudioRenderer_constructor c parameters_arg ri trk ev pools effs vcs mem =
     IAudioRenderer_object c parameters_arg ri trk ev pools effs vcs mem"

subsection \<open>The operations\<close>

text \<open>
  The member functions \<^verbatim>\<open>GetSampleRate\<close>, \<^verbatim>\<open>GetSampleCount\<close>, \<^verbatim>\<open>GetMixBufferCount\<close>,
  \<^verbatim>\<open>GetState\<close>, \<^verbatim>\<open>RequestUpdate\<close>, \<^verbatim>\<open>Start\<close>, \<^verbatim>\<open>Stop\<close> and \<^verbatim>\<open>QuerySystemEvent\<close> are
  declared in the header and defined in a source file that is missing. The definitions of
  this subsection follow the spec instead, and each says so.
\<close>

text \<open>
  Modelled from the spec: the body of \<^verbatim>\<open>GetSampleRate\<close> is missing. By the spec the
  operation answers with the sample rate the renderer was configured with.
\<close>

definition GetSampleRate ::
  "('rev, 'track, 'event, 'pool, 'effect, 'voice) IAudioRenderer \<Rightarrow> u32" where
  "GetSampleRate r = sampleRate (parameters r)"

text \<open>
  Modelled from the spec: the body of \<^verbatim>\<open>GetSampleCount\<close> is missing. By the spec the
  operation answers with the configured sample count per tick.
\<close>

definition GetSampleCount ::
  "('rev, 'track, 'event, 'pool, 'effect, 'voice) IAudioRenderer \<Rightarrow> u32" where
  "GetSampleCount r = sampleCount (parameters r)"

text \<open>
  Modelled from the spec: the body of \<^verbatim>\<open>GetMixBufferCount\<close> is missing. By the spec the
  operation answers with the configured number of mix buffers.
\<close>

definition GetMixBufferCount ::
  "('rev, 'track, 'event, 'pool, 'effect, 'voice) IAudioRenderer \<Rightarrow> u32" where
  "GetMixBufferCount r = mixBufferCount (parameters r)"

text \<open>
  Modelled from the spec: the class \<^verbatim>\<open>AudioTrack\<close> is missing. The spec treats the audio
  track as an external collaborator known by its capabilities: \<open>track_open\<close> is what
  opening or resuming does to it, \<open>track_flush\<close> what the silent flush of \<^verbatim>\<open>Stop\<close> does.
\<close>

record 'track track_capabilities =
  track_open :: "'track \<Rightarrow> 'track"
  track_flush :: "'track \<Rightarrow> 'track"

text \<open>
  Modelled from the spec: the body of \<^verbatim>\<open>Start\<close> is missing. Section 4.7: "Start:
  Stopped to Started, opens/resumes the audio track; idempotent." A call in the state
  \<^verbatim>\<open>Started\<close> changes nothing.
\<close>

definition Start ::
  "'track track_capabilities \<Rightarrow> ('rev, 'track, 'event, 'pool, 'effect, 'voice) IAudioRenderer \<Rightarrow>
   ('rev, 'track, 'event, 'pool, 'effect, 'voice) IAudioRenderer" where
  "Start cap r =
     (case playbackState r of
        Started \<Rightarrow> r
      | Stopped \<Rightarrow> r\<lparr>track := track_open cap (track r), playbackState := Started\<rparr>)"

text \<open>
  Modelled from the spec: the body of \<^verbatim>\<open>Stop\<close> is missing. Section 4.7: "Stop: Started
  to Stopped, flushes the track silently; idempotent." A call in the state \<^verbatim>\<open>Stopped\<close>
  changes nothing.
\<close>

definition Stop ::
  "'track track_capabilities \<Rightarrow> ('rev, 'track, 'event, 'pool, 'effect, 'voice) IAudioRenderer \<Rightarrow>
   ('rev, 'track, 'event, 'pool, 'effect, 'voice) IAudioRenderer" where
  "Stop cap r =
     (case playbackState r of
        Stopped \<Rightarrow> r
      | Started \<Rightarrow> r\<lparr>track := track_flush cap (track r), playbackState := Stopped\<rparr>)"

text \<open>
  Modelled from the spec: the body of \<^verbatim>\<open>RequestUpdate\<close> is missing, and so are the
  parser and the mixer it drives. What one call does to the renderer is given with the
  call: it is rejected, or it is applied with the entity vectors as the parser leaves
  them, the samples \<open>mix\<close> the mixer computes and the track's reaction \<open>enqueue\<close> to
  the tick's buffer.
\<close>

datatype ('track, 'pool, 'effect, 'voice) update =
    Rejected
  | Applied "'pool list" "'effect list" "'voice list" "nat \<Rightarrow> i16" "'track \<Rightarrow> 'track"

text \<open>
  Modelled from the spec: \<^verbatim>\<open>RequestUpdate\<close>, by what it may change. A rejected call
  changes nothing (section 7). An applied one rewrites the entries of the entity vectors
  (section 3); while the state is \<^verbatim>\<open>Started\<close> it also mixes the tick into the sample
  buffer, element by element, and hands it to the track (section 4.6); while \<^verbatim>\<open>Stopped\<close>
  it "does not mix or enqueue audio" (section 4.7).
\<close>

fun RequestUpdate ::
  "('track, 'pool, 'effect, 'voice) update \<Rightarrow>
   ('rev, 'track, 'event, 'pool, 'effect, 'voice) IAudioRenderer \<Rightarrow>
   ('rev, 'track, 'event, 'pool, 'effect, 'voice) IAudioRenderer" where
  "RequestUpdate Rejected r = r"
| "RequestUpdate (Applied pools effs vcs mix enqueue) r =
     (let r' = r\<lparr>memoryPools := pools, effects := effs, voices := vcs\<rparr>
      in case playbackState r of
           Stopped \<Rightarrow> r'
         | Started \<Rightarrow> r'\<lparr>track := enqueue (track r),
                          sampleBuffer := map mix [0..<length (sampleBuffer r)]\<rparr>)"

text \<open>
  Modelled from the spec: the operation surface of section 6, as the requests a session
  can send.
\<close>

datatype ('track, 'pool, 'effect, 'voice) request =
    ReqGetSampleRate
  | ReqGetSampleCount
  | ReqGetMixBufferCount
  | ReqGetState
  | ReqRequestUpdate "('track, 'pool, 'effect, 'voice) update"
  | ReqStart
  | ReqStop
  | ReqQuerySystemEvent

text \<open>
  Modelled from the spec: the renderer after one request. \<^verbatim>\<open>GetState\<close> and
  \<^verbatim>\<open>QuerySystemEvent\<close>, like the three getters, only answer.
\<close>

fun serve ::
  "'track track_capabilities \<Rightarrow> ('track, 'pool, 'effect, 'voice) request \<Rightarrow>
   ('rev, 'track, 'event, 'pool, 'effect, 'voice) IAudioRenderer \<Rightarrow>
   ('rev, 'track, 'event, 'pool, 'effect, 'voice) IAudioRenderer" where
  "serve cap (ReqRequestUpdate u) r = RequestUpdate u r"
| "serve cap ReqStart r = Start cap r"
| "serve cap ReqStop r = Stop cap r"
| "serve cap _ r = r"

text \<open>
  Modelled from the spec: the renderer after a sequence of requests, served one after
  the other (section 5: the calls on one instance are serialised).
\<close>

fun serve_all ::
  "'track track_capabilities \<Rightarrow> ('track, 'pool, 'effect, 'voice) request list \<Rightarrow>
   ('rev, 'track, 'event, 'pool, 'effect, 'voice) IAudioRenderer \<Rightarrow>
   ('rev, 'track, 'event, 'pool, 'effect, 'voice) IAudioRenderer" where
  "serve_all cap [] r = r"
| "serve_all cap (q # qs) r = serve_all cap qs (serve cap q r)"


section \<open>Layout lemmas\<close>

lemma length_le32: "length (le32 w) = 4"
  by (simp add: le32_def)

lemma le32_word:
  "(ucast (ucast w :: u8) :: u32)
     OR push_bit 8 (ucast (ucast (drop_bit 8 w) :: u8))
     OR push_bit 16 (ucast (ucast (drop_bit 16 w) :: u8))
     OR push_bit 24 (ucast (ucast (drop_bit 24 w) :: u8)) = (w :: u32)"
proof (rule bit_word_eqI)
  fix n :: nat
  assume "n < LENGTH(32)"
  then have n: "n < 32" by simp
  consider "n < 8" | "8 \<le> n" "n < 16" | "16 \<le> n" "n < 24" | "24 \<le> n"
    by linarith
  then show "bit (ucast (ucast w :: u8)
                  OR push_bit 8 (ucast (ucast (drop_bit 8 w) :: u8))
                  OR push_bit 16 (ucast (ucast (drop_bit 16 w) :: u8))
                  OR push_bit 24 (ucast (ucast (drop_bit 24 w) :: u8)) :: u32) n = bit w n"
    using n by cases (auto simp: bit_simps)
qed

lemma rd32_le32: "rd32 (pre @ le32 w @ post) (length pre) = Some w"
  using le32_word [of w]
  by (simp add: rd32_def le32_def nth_append)

lemma length_concat_le32: "length (concat (map le32 vs)) = 4 * length vs"
  by (induction vs) (simp_all add: length_le32)

lemma rd32_concat_le32:
  assumes "i < length vs"
  shows "rd32 (concat (map le32 vs)) (4 * i) = Some (vs ! i)"
proof -
  have split: "vs = take i vs @ vs ! i # drop (Suc i) vs"
    using assms by (rule id_take_nth_drop)
  have len: "length (concat (map le32 (take i vs))) = 4 * i"
    using assms by (simp add: length_concat_le32)
  have "concat (map le32 vs) =
          concat (map le32 (take i vs)) @ le32 (vs ! i) @ concat (map le32 (drop (Suc i) vs))"
    by (subst split) simp
  then show ?thesis
    using rd32_le32 [of "concat (map le32 (take i vs))" "vs ! i"
                        "concat (map le32 (drop (Suc i) vs))"] len
    by simp
qed

lemma rd32_cells:
  "map (rd32 (concat (map le32 vs))) (map (\<lambda>i. 4 * i) [0..<length vs]) = map Some vs"
  by (rule nth_equalityI) (simp_all add: rd32_concat_le32)

lemma struct_cells_AudioRendererParameters:
  "struct_cells 0 AudioRendererParameters_members = map (\<lambda>i. 4 * i) [0..<13]"
  by (simp add: AudioRendererParameters_members_def align_up_def upt_rec)

lemma struct_cells_UpdateDataHeader:
  "struct_cells 0 UpdateDataHeader_members = map (\<lambda>i. 4 * i) [0..<16]"
  by (simp add: UpdateDataHeader_members_def align_up_def upt_rec)

lemma length_AudioRendererParameters_values: "length (AudioRendererParameters_values p) = 13"
  by (simp add: AudioRendererParameters_values_def)

lemma length_UpdateDataHeader_values: "length (UpdateDataHeader_values h) = 16"
  by (simp add: UpdateDataHeader_values_def split: prod.splits)

lemma rd32_AudioRendererParameters:
  "map (rd32 (AudioRendererParameters_bytes p)) (struct_cells 0 AudioRendererParameters_members)
     = map Some (AudioRendererParameters_values p)"
  using rd32_cells [of "AudioRendererParameters_values p"]
  by (simp only: struct_cells_AudioRendererParameters length_AudioRendererParameters_values
        AudioRendererParameters_bytes_def)

lemma rd32_UpdateDataHeader:
  "map (rd32 (UpdateDataHeader_bytes h)) (struct_cells 0 UpdateDataHeader_members)
     = map Some (UpdateDataHeader_values h)"
  using rd32_cells [of "UpdateDataHeader_values h"]
  by (simp only: struct_cells_UpdateDataHeader length_UpdateDataHeader_values
        UpdateDataHeader_bytes_def)

section \<open>Lemmas about the renderer\<close>

lemma length_sampleBuffer_object:
  "length (sampleBuffer (IAudioRenderer_object c p ri trk ev pools effs vcs mem)) =
     MixBufferSize c * ChannelCount c"
  by (simp add: IAudioRenderer_object_def sampleBuffer_extent_def)

lemma sint_i16_bounds: "- 32768 \<le> sint (s :: i16) \<and> sint s \<le> 32767"
  using sint_ge [of s] sint_lt [of s] by simp

lemma range_sint_i16: "range (sint :: i16 \<Rightarrow> int) = {- 32768 .. 32767}"
proof (rule set_eqI, rule iffI)
  fix k :: int
  assume "k \<in> range (sint :: i16 \<Rightarrow> int)"
  then show "k \<in> {- 32768 .. 32767}"
    using sint_i16_bounds by auto
next
  fix k :: int
  assume "k \<in> {- 32768 .. 32767}"
  then have "sint (word_of_int k :: i16) = k"
    by (simp add: sint_sbintrunc' signed_take_bit_int_eq_self)
  then show "k \<in> range (sint :: i16 \<Rightarrow> int)"
    by (metis rangeI)
qed





lemma sampleBuffer_Start: "sampleBuffer (Start cap r) = sampleBuffer r"
  by (simp add: Start_def split: AudioOutState.splits)

lemma parameters_serve: "parameters (serve cap q r) = parameters r"
proof (cases q)
  case (ReqRequestUpdate u)
  then show ?thesis
    by (cases u) (simp_all add: Let_def split: AudioOutState.splits)
qed (simp_all add: Start_def Stop_def split: AudioOutState.splits)

lemma parameters_serve_all: "parameters (serve_all cap qs r) = parameters r"
  by (induction qs arbitrary: r) (simp_all add: parameters_serve)


lemma playbackState_RequestUpdate: "playbackState (RequestUpdate u r) = playbackState r"
  by (cases u) (simp_all add: Let_def split: AudioOutState.splits)

lemma Start_Start: "Start cap (Start cap r) = Start cap r"
  by (simp add: Start_def split: AudioOutState.splits)

lemma Stop_Stop: "Stop cap (Stop cap r) = Stop cap r"
  by (simp add: Stop_def split: AudioOutState.splits)

lemma UNIV_AudioOutState: "(UNIV :: AudioOutState set) = {Stopped, Started}"
  using AudioOutState.exhaust by auto

section \<open>The structs of the update protocol\<close>

text \<open>
  Claim C7. \<^verbatim>\<open>AudioRendererParameters\<close> takes exactly \<open>0x34\<close> bytes, all of them its
  members' (no padding), and its members lie in declaration order: sampleRate,
  sampleCount, mixBufferCount, subMixCount, voiceCount, sinkCount, effectCount,
  performanceManagerCount, voiceDropEnable, splitterCount, splitterDestinationDataCount,
  the unnamed word \<^verbatim>\<open>_unk0_\<close> (the spec's "reserved") and revision, at the offsets 0, 4,
  ..., 48. Read least significant byte first at these offsets, the bytes of a value give
  its members back.
\<close>

theorem AudioRendererParameters_layout:
  "struct_sizeof AudioRendererParameters_members = 0x34
   \<and> members_size AudioRendererParameters_members = 0x34
   \<and> struct_layout 0 AudioRendererParameters_members =
       [(''sampleRate'', 0), (''sampleCount'', 4), (''mixBufferCount'', 8),
        (''subMixCount'', 12), (''voiceCount'', 16), (''sinkCount'', 20),
        (''effectCount'', 24), (''performanceManagerCount'', 28),
        (''voiceDropEnable'', 32), (''splitterCount'', 36),
        (''splitterDestinationDataCount'', 40), (''_unk0_'', 44), (''revision'', 48)]
   \<and> length (AudioRendererParameters_bytes p) = 0x34
   \<and> map (rd32 (AudioRendererParameters_bytes p))
         (struct_cells 0 AudioRendererParameters_members) =
       map Some [sampleRate p, sampleCount p, mixBufferCount p, subMixCount p, voiceCount p,
                 sinkCount p, effectCount p, performanceManagerCount p, voiceDropEnable p,
                 splitterCount p, splitterDestinationDataCount p, unk0 p, revision p]"
proof -
  have size: "struct_sizeof AudioRendererParameters_members = 0x34"
    by (simp add: struct_sizeof_def struct_align_def AudioRendererParameters_members_def
          align_up_def)
  have packed: "members_size AudioRendererParameters_members = 0x34"
    by (simp add: members_size_def AudioRendererParameters_members_def)
  have layout: "struct_layout 0 AudioRendererParameters_members =
       [(''sampleRate'', 0), (''sampleCount'', 4), (''mixBufferCount'', 8),
        (''subMixCount'', 12), (''voiceCount'', 16), (''sinkCount'', 20),
        (''effectCount'', 24), (''performanceManagerCount'', 28),
        (''voiceDropEnable'', 32), (''splitterCount'', 36),
        (''splitterDestinationDataCount'', 40), (''_unk0_'', 44), (''revision'', 48)]"
    by (simp add: AudioRendererParameters_members_def align_up_def)
  have len: "length (AudioRendererParameters_bytes p) = 0x34"
    by (simp add: AudioRendererParameters_bytes_def length_concat_le32
          length_AudioRendererParameters_values)
  have cells: "map (rd32 (AudioRendererParameters_bytes p))
         (struct_cells 0 AudioRendererParameters_members) =
       map Some [sampleRate p, sampleCount p, mixBufferCount p, subMixCount p, voiceCount p,
                 sinkCount p, effectCount p, performanceManagerCount p, voiceDropEnable p,
                 splitterCount p, splitterDestinationDataCount p, unk0 p, revision p]"
    using rd32_AudioRendererParameters [of p]
    by (simp only: AudioRendererParameters_values_def)
  from size packed layout len cells show ?thesis by (intro conjI)
qed

text \<open>
  Claim C8. \<^verbatim>\<open>UpdateDataHeader\<close> takes exactly \<open>0x40\<close> bytes without padding, and its
  members lie in declaration order: revision, behaviorSize, memoryPoolSize, voiceSize,
  voiceResourceSize, effectSize, mixSize, sinkSize, performanceManagerSize, the unnamed
  word \<^verbatim>\<open>_unk0_\<close>, elapsedFrameCountInfoSize, the four unnamed words \<^verbatim>\<open>_unk1_[4]\<close> and
  totalSize, which is the last word, at offset 60.
\<close>

theorem UpdateDataHeader_layout:
  "struct_sizeof UpdateDataHeader_members = 0x40
   \<and> members_size UpdateDataHeader_members = 0x40
   \<and> struct_layout 0 UpdateDataHeader_members =
       [(''revision'', 0), (''behaviorSize'', 4), (''memoryPoolSize'', 8),
        (''voiceSize'', 12), (''voiceResourceSize'', 16), (''effectSize'', 20),
        (''mixSize'', 24), (''sinkSize'', 28), (''performanceManagerSize'', 32),
        (''_unk0_'', 36), (''elapsedFrameCountInfoSize'', 40), (''_unk1_'', 44),
        (''totalSize'', 60)]
   \<and> length (UpdateDataHeader_bytes h) = 0x40
   \<and> map (rd32 (UpdateDataHeader_bytes h)) (struct_cells 0 UpdateDataHeader_members) =
       map Some [hdr_revision h, behaviorSize h, memoryPoolSize h, voiceSize h,
                 voiceResourceSize h, effectSize h, mixSize h, sinkSize h,
                 performanceManagerSize h, hdr_unk0 h, elapsedFrameCountInfoSize h,
                 fst (unk1 h), fst (snd (unk1 h)), fst (snd (snd (unk1 h))),
                 snd (snd (snd (unk1 h))), totalSize h]
   \<and> rd32 (UpdateDataHeader_bytes h) 60 = Some (totalSize h)"
proof -
  have size: "struct_sizeof UpdateDataHeader_members = 0x40"
    by (simp add: struct_sizeof_def struct_align_def UpdateDataHeader_members_def align_up_def)
  have packed: "members_size UpdateDataHeader_members = 0x40"
    by (simp add: members_size_def UpdateDataHeader_members_def)
  have layout: "struct_layout 0 UpdateDataHeader_members =
       [(''revision'', 0), (''behaviorSize'', 4), (''memoryPoolSize'', 8),
        (''voiceSize'', 12), (''voiceResourceSize'', 16), (''effectSize'', 20),
        (''mixSize'', 24), (''sinkSize'', 28), (''performanceManagerSize'', 32),
        (''_unk0_'', 36), (''elapsedFrameCountInfoSize'', 40), (''_unk1_'', 44),
        (''totalSize'', 60)]"
    by (simp add: UpdateDataHeader_members_def align_up_def)
  have len: "length (UpdateDataHeader_bytes h) = 0x40"
    by (simp add: UpdateDataHeader_bytes_def length_concat_le32 length_UpdateDataHeader_values)
  have vals: "UpdateDataHeader_values h =
        [hdr_revision h, behaviorSize h, memoryPoolSize h, voiceSize h,
                 voiceResourceSize h, effectSize h, mixSize h, sinkSize h,
                 performanceManagerSize h, hdr_unk0 h, elapsedFrameCountInfoSize h,
                 fst (unk1 h), fst (snd (unk1 h)), fst (snd (snd (unk1 h))),
                 snd (snd (snd (unk1 h))), totalSize h]"
    by (simp add: UpdateDataHeader_values_def split: prod.splits)
  have cells: "map (rd32 (UpdateDataHeader_bytes h)) (struct_cells 0 UpdateDataHeader_members) =
       map Some [hdr_revision h, behaviorSize h, memoryPoolSize h, voiceSize h,
                 voiceResourceSize h, effectSize h, mixSize h, sinkSize h,
                 performanceManagerSize h, hdr_unk0 h, elapsedFrameCountInfoSize h,
                 fst (unk1 h), fst (snd (unk1 h)), fst (snd (snd (unk1 h))),
                 snd (snd (snd (unk1 h))), totalSize h]"
    using rd32_UpdateDataHeader [of h] by (simp only: vals)
  have "rd32 (concat (map le32 (UpdateDataHeader_values h))) (4 * 15)
          = Some (UpdateDataHeader_values h ! 15)"
    by (rule rd32_concat_le32) (simp add: length_UpdateDataHeader_values)
  then have total: "rd32 (UpdateDataHeader_bytes h) 60 = Some (totalSize h)"
    by (simp add: UpdateDataHeader_bytes_def vals)
  from size packed layout len cells total show ?thesis by (intro conjI)
qed

section \<open>The sample buffer\<close>

text \<open>
  Claim C10. Every sample of the final output buffer is an \<^verbatim>\<open>i16\<close>: read as a signed
  number it lies in the range from -32768 to 32767, and every number of that range is
  the value of some \<^verbatim>\<open>i16\<close>, so this is exactly the range a clamp to the sample type
  has. The buffer of every renderer object holds \<^verbatim>\<open>MixBufferSize * ChannelCount\<close>
  samples, whatever its parameters are: two objects that differ in their parameters
  (sampleCount and mixBufferCount among them) have buffers of the same extent.
\<close>

theorem sampleBuffer_i16_fixed_extent:
  "length (sampleBuffer (IAudioRenderer_object c p ri trk ev pools effs vcs mem)) =
     MixBufferSize c * ChannelCount c
   \<and> length (sampleBuffer (IAudioRenderer_object c p' ri trk ev pools effs vcs mem)) =
     length (sampleBuffer (IAudioRenderer_object c p ri trk ev pools effs vcs mem))
   \<and> sint ` set (sampleBuffer r) \<subseteq> {- 32768 .. 32767}
   \<and> range (sint :: i16 \<Rightarrow> int) = {- 32768 .. 32767}"
proof -
  have "sint ` set (sampleBuffer r) \<subseteq> range (sint :: i16 \<Rightarrow> int)"
    by blast
  then have "sint ` set (sampleBuffer r) \<subseteq> {- 32768 .. 32767}"
    by (simp only: range_sint_i16)
  then show ?thesis
    by (simp add: length_sampleBuffer_object range_sint_i16)
qed

text \<open>
  The theorem at a renderer for 48 kHz with 240 samples per tick and at one for 32 kHz
  with 160, the constants being 960 and 2: both buffers hold 1920 samples.
\<close>

theorem sampleBuffer_i16_fixed_extent_witness:
  "length (sampleBuffer (IAudioRenderer_object \<lparr>MixBufferSize = 960, ChannelCount = 2\<rparr>
      \<lparr>sampleRate = 48000, sampleCount = 240, mixBufferCount = 6, subMixCount = 1,
       voiceCount = 24, sinkCount = 1, effectCount = 0, performanceManagerCount = 0,
       voiceDropEnable = 0, splitterCount = 0, splitterDestinationDataCount = 0,
       unk0 = 0, revision = 0x31564552\<rparr>
      () () () ([] :: unit list) ([] :: unit list) ([] :: unit list) (\<lambda>i. 0))) = 1920
   \<and> length (sampleBuffer (IAudioRenderer_object \<lparr>MixBufferSize = 960, ChannelCount = 2\<rparr>
      \<lparr>sampleRate = 32000, sampleCount = 160, mixBufferCount = 6, subMixCount = 1,
       voiceCount = 24, sinkCount = 1, effectCount = 0, performanceManagerCount = 0,
       voiceDropEnable = 0, splitterCount = 0, splitterDestinationDataCount = 0,
       unk0 = 0, revision = 0x31564552\<rparr>
      () () () ([] :: unit list) ([] :: unit list) ([] :: unit list) (\<lambda>i. 0))) = 1920
   \<and> sint ` set (sampleBuffer (IAudioRenderer_object \<lparr>MixBufferSize = 960, ChannelCount = 2\<rparr>
      \<lparr>sampleRate = 48000, sampleCount = 240, mixBufferCount = 6, subMixCount = 1,
       voiceCount = 24, sinkCount = 1, effectCount = 0, performanceManagerCount = 0,
       voiceDropEnable = 0, splitterCount = 0, splitterDestinationDataCount = 0,
       unk0 = 0, revision = 0x31564552\<rparr>
      () () () ([] :: unit list) ([] :: unit list) ([] :: unit list) (\<lambda>i. 0))) \<subseteq> {- 32768 .. 32767}"
  using sampleBuffer_i16_fixed_extent [where c = "\<lparr>MixBufferSize = 960, ChannelCount = 2\<rparr>"
      and p = "\<lparr>sampleRate = 48000, sampleCount = 240, mixBufferCount = 6, subMixCount = 1,
       voiceCount = 24, sinkCount = 1, effectCount = 0, performanceManagerCount = 0,
       voiceDropEnable = 0, splitterCount = 0, splitterDestinationDataCount = 0,
       unk0 = 0, revision = 0x31564552\<rparr>"
      and p' = "\<lparr>sampleRate = 32000, sampleCount = 160, mixBufferCount = 6, subMixCount = 1,
       voiceCount = 24, sinkCount = 1, effectCount = 0, performanceManagerCount = 0,
       voiceDropEnable = 0, splitterCount = 0, splitterDestinationDataCount = 0,
       unk0 = 0, revision = 0x31564552\<rparr>"
      and ri = "()" and trk = "()" and ev = "()" and pools = "[] :: unit list"
      and effs = "[] :: unit list" and vcs = "[] :: unit list" and mem = "\<lambda>i. 0"
      and r = "IAudioRenderer_object \<lparr>MixBufferSize = 960, ChannelCount = 2\<rparr>
      \<lparr>sampleRate = 48000, sampleCount = 240, mixBufferCount = 6, subMixCount = 1,
       voiceCount = 24, sinkCount = 1, effectCount = 0, performanceManagerCount = 0,
       voiceDropEnable = 0, splitterCount = 0, splitterDestinationDataCount = 0,
       unk0 = 0, revision = 0x31564552\<rparr>
      () () () ([] :: unit list) ([] :: unit list) ([] :: unit list) (\<lambda>i. 0)"]
  by simp




section \<open>The operations of the renderer\<close>

text \<open>
  Claim C3. For all parameters given to the constructor, and after any sequence of
  requests served since, \<^verbatim>\<open>GetSampleRate\<close> answers with the sampleRate the constructor
  was given, \<^verbatim>\<open>GetSampleCount\<close> with the sampleCount and \<^verbatim>\<open>GetMixBufferCount\<close> with the
  mixBufferCount.
\<close>

theorem getters_return_constructor_inputs:
  "GetSampleRate (serve_all cap qs (IAudioRenderer_constructor c p ri trk ev pools effs vcs mem)) =
     sampleRate p
   \<and> GetSampleCount (serve_all cap qs (IAudioRenderer_constructor c p ri trk ev pools effs vcs mem)) =
     sampleCount p
   \<and> GetMixBufferCount (serve_all cap qs (IAudioRenderer_constructor c p ri trk ev pools effs vcs mem)) =
     mixBufferCount p"
  by (simp add: GetSampleRate_def GetSampleCount_def GetMixBufferCount_def
        parameters_serve_all IAudioRenderer_constructor_def IAudioRenderer_object_def)

text \<open>
  Claim C4. The playback state is \<^verbatim>\<open>Stopped\<close> or \<^verbatim>\<open>Started\<close> and nothing else, and
  \<^verbatim>\<open>Stopped\<close> in a new renderer. \<^verbatim>\<open>Start\<close> takes a stopped renderer to \<^verbatim>\<open>Started\<close> and
  opens the track; after \<^verbatim>\<open>Start\<close> the state is \<^verbatim>\<open>Started\<close> in any case, and a second
  \<^verbatim>\<open>Start\<close> changes nothing, so the track is not opened again. \<^verbatim>\<open>Stop\<close> takes a started
  renderer to \<^verbatim>\<open>Stopped\<close> and flushes the track; after \<^verbatim>\<open>Stop\<close> the state is \<^verbatim>\<open>Stopped\<close>,
  and a second \<^verbatim>\<open>Stop\<close> changes nothing. \<^verbatim>\<open>RequestUpdate\<close> leaves the state as it is.
\<close>

theorem playback_state_machine:
  "(UNIV :: AudioOutState set) = {Stopped, Started}
   \<and> playbackState (IAudioRenderer_constructor c p ri trk ev pools effs vcs mem) = Stopped
   \<and> Start cap (r\<lparr>playbackState := Stopped\<rparr>) =
       r\<lparr>track := track_open cap (track r), playbackState := Started\<rparr>
   \<and> playbackState (Start cap r) = Started
   \<and> Start cap (Start cap r) = Start cap r
   \<and> Stop cap (r\<lparr>playbackState := Started\<rparr>) =
       r\<lparr>track := track_flush cap (track r), playbackState := Stopped\<rparr>
   \<and> playbackState (Stop cap r) = Stopped
   \<and> Stop cap (Stop cap r) = Stop cap r
   \<and> playbackState (RequestUpdate u r) = playbackState r"
proof -
  have new: "playbackState (IAudioRenderer_constructor c p ri trk ev pools effs vcs mem) = Stopped"
    by (simp add: IAudioRenderer_constructor_def IAudioRenderer_object_def)
  have start: "Start cap (r\<lparr>playbackState := Stopped\<rparr>) =
       r\<lparr>track := track_open cap (track r), playbackState := Started\<rparr>"
    by (simp add: Start_def)
  have started: "playbackState (Start cap r) = Started"
    by (simp add: Start_def split: AudioOutState.splits)
  have stop: "Stop cap (r\<lparr>playbackState := Started\<rparr>) =
       r\<lparr>track := track_flush cap (track r), playbackState := Stopped\<rparr>"
    by (simp add: Stop_def)
  have stopped: "playbackState (Stop cap r) = Stopped"
    by (simp add: Stop_def split: AudioOutState.splits)
  from UNIV_AudioOutState new start started Start_Start [of cap r] stop stopped
    Stop_Stop [of cap r] playbackState_RequestUpdate [of u r]
  show ?thesis by (intro conjI)
qed

text \<open>
  The theorem at a track that counts how often it was opened and flushed: after two
  calls of \<^verbatim>\<open>Start\<close> on a new renderer the track was opened once, and after two calls
  of \<^verbatim>\<open>Stop\<close> that follow, flushed once.
\<close>

theorem playback_state_machine_witness:
  "(let cap = \<lparr>track_open = \<lambda>(a :: nat, b :: nat). (Suc a, b),
                track_flush = \<lambda>(a :: nat, b :: nat). (a, Suc b)\<rparr>;
        r = IAudioRenderer_constructor \<lparr>MixBufferSize = 960, ChannelCount = 2\<rparr>
            \<lparr>sampleRate = 48000, sampleCount = 240, mixBufferCount = 6, subMixCount = 1,
            voiceCount = 24, sinkCount = 1, effectCount = 0, performanceManagerCount = 0,
            voiceDropEnable = 0, splitterCount = 0, splitterDestinationDataCount = 0,
            unk0 = 0, revision = 0x31564552\<rparr>
            () (0, 0) () ([] :: unit list) ([] :: unit list) ([] :: unit list) (\<lambda>i. 0)
    in playbackState r = Stopped
       \<and> playbackState (Start cap r) = Started
       \<and> track (Start cap r) = (1, 0)
       \<and> track (Start cap (Start cap r)) = (1, 0)
       \<and> playbackState (Stop cap (Start cap r)) = Stopped
       \<and> track (Stop cap (Start cap r)) = (1, 1)
       \<and> track (Stop cap (Stop cap (Start cap r))) = (1, 1))"
proof -
  let ?cap = "\<lparr>track_open = \<lambda>(a :: nat, b :: nat). (Suc a, b),
               track_flush = \<lambda>(a :: nat, b :: nat). (a, Suc b)\<rparr>"
  let ?r = "IAudioRenderer_constructor \<lparr>MixBufferSize = 960, ChannelCount = 2\<rparr>
            \<lparr>sampleRate = 48000, sampleCount = 240, mixBufferCount = 6, subMixCount = 1,
            voiceCount = 24, sinkCount = 1, effectCount = 0, performanceManagerCount = 0,
            voiceDropEnable = 0, splitterCount = 0, splitterDestinationDataCount = 0,
            unk0 = 0, revision = 0x31564552\<rparr>
            () (0 :: nat, 0 :: nat) () ([] :: unit list) ([] :: unit list) ([] :: unit list)
            (\<lambda>i. 0)"
  have r: "?r\<lparr>playbackState := Stopped\<rparr> = ?r" "track ?r = (0, 0)" "playbackState ?r = Stopped"
    by (simp_all add: IAudioRenderer_constructor_def IAudioRenderer_object_def)
  note new = playback_state_machine [where cap = ?cap and r = ?r
      and c = "\<lparr>MixBufferSize = 960, ChannelCount = 2\<rparr>"
      and p = "\<lparr>sampleRate = 48000, sampleCount = 240, mixBufferCount = 6, subMixCount = 1,
            voiceCount = 24, sinkCount = 1, effectCount = 0, performanceManagerCount = 0,
            voiceDropEnable = 0, splitterCount = 0, splitterDestinationDataCount = 0,
            unk0 = 0, revision = 0x31564552\<rparr>"
      and ri = "()" and trk = "(0 :: nat, 0 :: nat)" and ev = "()" and pools = "[] :: unit list"
      and effs = "[] :: unit list" and vcs = "[] :: unit list" and mem = "\<lambda>i. 0"
      and u = Rejected]
  from new r have start: "Start ?cap ?r = ?r\<lparr>track := (1, 0), playbackState := Started\<rparr>"
    by simp
  from new have again: "Start ?cap (Start ?cap ?r) = Start ?cap ?r"
    by simp
  note started = playback_state_machine [where cap = ?cap and r = "Start ?cap ?r"
      and c = "\<lparr>MixBufferSize = 960, ChannelCount = 2\<rparr>"
      and p = "\<lparr>sampleRate = 48000, sampleCount = 240, mixBufferCount = 6, subMixCount = 1,
            voiceCount = 24, sinkCount = 1, effectCount = 0, performanceManagerCount = 0,
            voiceDropEnable = 0, splitterCount = 0, splitterDestinationDataCount = 0,
            unk0 = 0, revision = 0x31564552\<rparr>"
      and ri = "()" and trk = "(0 :: nat, 0 :: nat)" and ev = "()" and pools = "[] :: unit list"
      and effs = "[] :: unit list" and vcs = "[] :: unit list" and mem = "\<lambda>i. 0"
      and u = Rejected]
  have s: "(Start ?cap ?r)\<lparr>playbackState := Started\<rparr> = Start ?cap ?r"
    by (simp add: start)
  from started s have stop:
    "Stop ?cap (Start ?cap ?r) = ?r\<lparr>track := (1, 1), playbackState := Stopped\<rparr>"
    by (simp add: start)
  from started have stop_again:
    "Stop ?cap (Stop ?cap (Start ?cap ?r)) = Stop ?cap (Start ?cap ?r)"
    by simp
  have c1: "playbackState ?r = Stopped"
    by (rule r(3))
  have c2: "playbackState (Start ?cap ?r) = Started"
    by (simp only: start) simp
  have c3: "track (Start ?cap ?r) = (1, 0)"
    by (simp only: start) simp
  have c4: "track (Start ?cap (Start ?cap ?r)) = (1, 0)"
    by (simp only: again c3)
  have c5: "playbackState (Stop ?cap (Start ?cap ?r)) = Stopped"
    by (simp only: stop) simp
  have c6: "track (Stop ?cap (Start ?cap ?r)) = (1, 1)"
    by (simp only: stop) simp
  have c7: "track (Stop ?cap (Stop ?cap (Start ?cap ?r))) = (1, 1)"
    by (simp only: stop_again c6)
  from c1 c2 c3 c4 c5 c6 c7 show ?thesis
    unfolding Let_def by (intro conjI)
qed

end
